theory Spec2Isabelle
  imports Complex_Main "HOL-Library.AList"
begin

section \<open>Python values, errors and effects\<close>

text \<open>
  The program is one Python module, \<^verbatim>\<open>app.py\<close>. Its functions are embedded as HOL
  functions that return what the Python returns; an exception that leaves a function is
  the \<open>Inl\<close> branch of a sum, and what the function does to the outside (the GET
  request, the Streamlit messages) is the list of effects it returns, in order.

  \<open>OutsideModel\<close> is not a Python exception: it marks inputs on which the behaviour
  of the pandas library is not modelled here. No theorem below concludes anything from it.
\<close>

datatype py_error =
    NameError string
  | AttributeError string
  | KeyError string
  | ValueError
  | TypeError
  | OutsideModel

text \<open>
  A decoded JSON document, as \<^verbatim>\<open>response.json()\<close> returns it: \<open>JNull\<close> is Python's
  \<^verbatim>\<open>None\<close>, a \<open>JObj\<close> is a \<^verbatim>\<open>dict\<close> given by its items (keys occur once),
  \<open>'n\<close> is the type of floats.
\<close>

datatype 'n json =
    JNull
  | JBool bool
  | JInt int
  | JFloat 'n
  | JStr string
  | JList "'n json list"
  | JObj "(string \<times> 'n json) list"

text \<open>The values of the query parameters: strings, and the integer limit.\<close>

datatype param = PStr string | PInt int

type_synonym params = "(string \<times> param) list"

text \<open>The texts the program shows with \<^verbatim>\<open>st.error\<close> and \<^verbatim>\<open>st.warning\<close>.\<close>

datatype 'n message =
    HttpErrorOccurred string
  | ErrorDetails "'n json"
  | NoAdditionalInfo
  | ErrorFetching string
  | NoCloseApproaches

datatype 'n effect =
    HttpGet string params
  | StError "'n message"
  | StWarning "'n message"

section \<open>Module constants\<close>

definition BODY_CODES :: "(string \<times> string) list" where
  "BODY_CODES =
    [(''Mercury'', ''Merc''), (''Venus'', ''Venus''), (''Earth'', ''Earth''),
     (''Mars'', ''Mars''), (''Jupiter'', ''Juptr''), (''Saturn'', ''Satrn''),
     (''Uranus'', ''Urnus''), (''Neptune'', ''Neptn''), (''Moon'', ''Moon'')]"

definition url :: string where
  "url = ''https://ssd-api.jpl.nasa.gov/cad.api''"

section \<open>Name resolution\<close>

text \<open>
  A name read in a function body is looked up among the function's local variables, then
  among the names bound at module level (the imports, \<^verbatim>\<open>BODY_CODES\<close> and the four
  functions), then among Python's builtins; when no scope binds it, reading it raises
  \<^verbatim>\<open>NameError\<close>. No builtin is spelled \<^verbatim>\<open>object_tye\<close>, and the lookups of the
  program that reach past the module scope are of that name only, so the builtins are
  left out of the scopes.
\<close>

datatype name_value = VStr string | VInt int | VDict params | VObject

definition module_names :: "string list" where
  "module_names =
    [''st'', ''requests'', ''pd'', ''px'', ''datetime'', ''timedelta'', ''sys'', ''io'',
     ''BODY_CODES'', ''fetch_close_approaches'', ''parse_data'',
     ''visualize_close_approaches'', ''main'']"

definition load_name :: "(string \<times> name_value) list \<Rightarrow> string \<Rightarrow> py_error + name_value" where
  "load_name locals n =
    (case map_of locals n of
       Some v \<Rightarrow> Inr v
     | None \<Rightarrow> if n \<in> set module_names then Inr VObject else Inl (NameError n))"

section \<open>The query parameters (lines 25 to 39)\<close>

text \<open>The dictionary literal of lines 27 to 33. The f-string joins two strings.\<close>

definition my_params_literal ::
  "string \<Rightarrow> string \<Rightarrow> string \<Rightarrow> string \<Rightarrow> string \<Rightarrow> int \<Rightarrow> params" where
  "my_params_literal body_code min_date max_date max_dist dist_unit my_limit =
    [(''body'', PStr body_code),
     (''date-min'', PStr min_date),
     (''date-max'', PStr max_date),
     (''dist-max'', PStr (max_dist @ dist_unit)),
     (''limit'', PInt my_limit)]"

text \<open>The local variables of \<^verbatim>\<open>fetch_close_approaches\<close> when line 36 is reached.\<close>

definition fetch_locals ::
  "string \<Rightarrow> string \<Rightarrow> string \<Rightarrow> string \<Rightarrow> string \<Rightarrow> int \<Rightarrow> string \<Rightarrow> params
     \<Rightarrow> (string \<times> name_value) list" where
  "fetch_locals body_code min_date max_date max_dist dist_unit my_limit object_type my_params =
    [(''body_code'', VStr body_code),
     (''min_date'', VStr min_date),
     (''max_date'', VStr max_date),
     (''max_dist'', VStr max_dist),
     (''dist_unit'', VStr dist_unit),
     (''my_limit'', VInt my_limit),
     (''object_type'', VStr object_type),
     (''url'', VStr url),
     (''my_params'', VDict my_params)]"

text \<open>
  Lines 36 to 39: the \<^verbatim>\<open>if\<close> reads \<^verbatim>\<open>object_type\<close>, the \<^verbatim>\<open>elif\<close> reads
  \<^verbatim>\<open>object_tye\<close>. An assignment \<^verbatim>\<open>d[k] = v\<close> replaces the value of a key in place or
  appends the key.
\<close>

definition object_type_filter :: "(string \<times> name_value) list \<Rightarrow> params \<Rightarrow> py_error + params" where
  "object_type_filter locals my_params =
    (case load_name locals ''object_type'' of
       Inl e \<Rightarrow> Inl e
     | Inr v \<Rightarrow>
         if v = VStr ''NEO'' then Inr (AList.update ''neo'' (PStr ''true'') my_params)
         else (case load_name locals ''object_tye'' of
                 Inl e \<Rightarrow> Inl e
               | Inr w \<Rightarrow>
                   if w = VStr ''Comet''
                   then Inr (AList.update ''comet'' (PStr ''true'') my_params)
                   else Inr my_params))"

definition build_params ::
  "string \<Rightarrow> string \<Rightarrow> string \<Rightarrow> string \<Rightarrow> string \<Rightarrow> int \<Rightarrow> string \<Rightarrow> py_error + params" where
  "build_params body_code min_date max_date max_dist dist_unit my_limit object_type =
    (let my_params = my_params_literal body_code min_date max_date max_dist dist_unit my_limit
     in object_type_filter
          (fetch_locals body_code min_date max_date max_dist dist_unit my_limit object_type
             my_params)
          my_params)"

section \<open>The request (lines 42 to 57)\<close>

text \<open>
  What the network answers to the GET request is a parameter of the model. Either
  \<^verbatim>\<open>requests.get\<close> raises (a timeout, a DNS or connection failure: a
  \<^verbatim>\<open>RequestException\<close>, given by its description), or it returns a response: a status
  code, the description of the \<^verbatim>\<open>HTTPError\<close> that \<^verbatim>\<open>raise_for_status\<close> builds for
  that response, and a body that decodes as JSON or does not (then the description of the
  decoding error).
\<close>

datatype 'n body = Decodes "'n json" | Undecodable string

record 'n response =
  status_code :: nat
  http_error_text :: string
  body :: "'n body"

datatype 'n http_event = RequestFailed string | Responded "'n response"

text \<open>
  The exceptions of the \<^verbatim>\<open>requests\<close> library that the \<^verbatim>\<open>try\<close> block can raise. All
  three are \<^verbatim>\<open>RequestException\<close>s; \<^verbatim>\<open>JSONDecodeError\<close> is a \<^verbatim>\<open>ValueError\<close> too
  (requests 2.27 and later).
\<close>

datatype request_exception =
    HTTPError string
  | JSONDecodeError string
  | OtherRequestException string

fun description :: "request_exception \<Rightarrow> string" where
  "description (HTTPError t) = t"
| "description (JSONDecodeError t) = t"
| "description (OtherRequestException t) = t"

definition raise_for_status :: "'n response \<Rightarrow> request_exception + unit" where
  "raise_for_status r =
    (if 400 \<le> status_code r \<and> status_code r < 600
     then Inl (HTTPError (http_error_text r)) else Inr ())"

definition response_json :: "'n response \<Rightarrow> request_exception + 'n json" where
  "response_json r =
    (case body r of Decodes j \<Rightarrow> Inr j | Undecodable t \<Rightarrow> Inl (JSONDecodeError t))"

text \<open>Lines 43 to 46, the body of the \<^verbatim>\<open>try\<close>: the response, if any, and the outcome.\<close>

definition try_request ::
  "'n http_event \<Rightarrow> 'n response option \<times> (request_exception + 'n json)" where
  "try_request ev =
    (case ev of
       RequestFailed t \<Rightarrow> (None, Inl (OtherRequestException t))
     | Responded r \<Rightarrow>
         (case raise_for_status r of
            Inl e \<Rightarrow> (Some r, Inl e)
          | Inr _ \<Rightarrow> (Some r, response_json r)))"

text \<open>
  Lines 47 to 57, the two handlers. The first one takes an \<^verbatim>\<open>HTTPError\<close> and reads the
  body of the response again; the second one takes every other \<^verbatim>\<open>RequestException\<close>.
  Both return \<^verbatim>\<open>None\<close>. Were an \<^verbatim>\<open>HTTPError\<close> raised before \<^verbatim>\<open>response\<close> is
  bound, reading that name in the handler would raise (\<^verbatim>\<open>UnboundLocalError\<close>, a
  \<^verbatim>\<open>NameError\<close>); \<^verbatim>\<open>try_request\<close> raises it from \<^verbatim>\<open>raise_for_status\<close> only.
\<close>

definition handle_exception ::
  "'n response option \<Rightarrow> request_exception \<Rightarrow> 'n effect list \<times> (py_error + 'n json)" where
  "handle_exception resp e =
    (case e of
       HTTPError t \<Rightarrow>
         (case resp of
            None \<Rightarrow> ([StError (HttpErrorOccurred t)], Inl (NameError ''response''))
          | Some r \<Rightarrow>
              (case response_json r of
                 Inr error_info \<Rightarrow>
                   ([StError (HttpErrorOccurred t), StError (ErrorDetails error_info)], Inr JNull)
               | Inl _ \<Rightarrow>
                   ([StError (HttpErrorOccurred t), StError NoAdditionalInfo], Inr JNull)))
     | _ \<Rightarrow> ([StError (ErrorFetching (description e))], Inr JNull))"

definition fetch_close_approaches ::
  "(string \<Rightarrow> params \<Rightarrow> 'n http_event)
     \<Rightarrow> string \<Rightarrow> string \<Rightarrow> string \<Rightarrow> string \<Rightarrow> string \<Rightarrow> int \<Rightarrow> string
     \<Rightarrow> 'n effect list \<times> (py_error + 'n json)" where
  "fetch_close_approaches net body_code min_date max_date max_dist dist_unit my_limit object_type =
    (case build_params body_code min_date max_date max_dist dist_unit my_limit object_type of
       Inl e \<Rightarrow> ([], Inl e)
     | Inr my_params \<Rightarrow>
         (case try_request (net url my_params) of
            (_, Inr data) \<Rightarrow> ([HttpGet url my_params], Inr data)
          | (resp, Inl e) \<Rightarrow>
              (let (shown, ret) = handle_exception resp e
               in (HttpGet url my_params # shown, ret))))"

section \<open>Data frames\<close>

text \<open>
  A pandas \<^verbatim>\<open>DataFrame\<close> is its column labels and its rows, in order; a row holds one
  cell per column. A cell of a frame built from the payload is a string or \<^verbatim>\<open>None\<close>;
  the conversions turn cells into numbers or the missing number \<open>NaN\<close>, and into
  timestamps or the missing timestamp \<open>NaT\<close>.
\<close>

text \<open>A timestamp: year, month, day, hour, minute.\<close>

datatype timestamp = Timestamp nat nat nat nat nat

datatype 'n cell = Str string | Null | Num 'n | NaN | Time timestamp | NaT

record 'n dataframe =
  columns :: "string list"
  rows :: "'n cell list list"

text \<open>\<^verbatim>\<open>pd.DataFrame()\<close>: no column, no row.\<close>

definition empty_frame :: "'n dataframe" where
  "empty_frame = \<lparr>columns = [], rows = []\<rparr>"

definition and_then :: "'e + 'a \<Rightarrow> ('a \<Rightarrow> 'e + 'b) \<Rightarrow> 'e + 'b" where
  "and_then r f = (case r of Inl e \<Rightarrow> Inl e | Inr v \<Rightarrow> f v)"

text \<open>The results of a conversion applied cell by cell: the first exception wins.\<close>

fun collect :: "('e + 'a) list \<Rightarrow> 'e + 'a list" where
  "collect [] = Inr []"
| "collect (x # xs) =
     (case x of
        Inl e \<Rightarrow> Inl e
      | Inr v \<Rightarrow> (case collect xs of Inl e \<Rightarrow> Inl e | Inr vs \<Rightarrow> Inr (v # vs)))"

text \<open>
  \<^verbatim>\<open>pd.DataFrame(records, columns=fields)\<close> for a list of lists: no record gives a frame
  with no row; otherwise the records are padded with \<^verbatim>\<open>None\<close> to the longest one, and
  that width must be the number of labels (pandas raises \<^verbatim>\<open>ValueError\<close>).
\<close>

definition DataFrame :: "'n cell list list \<Rightarrow> string list \<Rightarrow> py_error + 'n dataframe" where
  "DataFrame records labels =
    (if records = [] then Inr \<lparr>columns = labels, rows = []\<rparr>
     else let width = fold max (map length records) 0
          in if length labels \<noteq> width then Inl ValueError
             else Inr \<lparr>columns = labels,
                       rows = map (\<lambda>r. r @ replicate (width - length r) Null) records\<rparr>)"

text \<open>
  \<^verbatim>\<open>fd[name]\<close>: \<^verbatim>\<open>KeyError\<close> when no column has the label, the column as a
  \<^verbatim>\<open>Series\<close> when one has, a frame of the columns when several have.
\<close>

datatype 'n selection = Series "'n cell list" | SubFrame

definition cell_of :: "string list \<Rightarrow> 'n cell list \<Rightarrow> string \<Rightarrow> 'n cell" where
  "cell_of cols r name = (case map_of (zip cols r) name of Some c \<Rightarrow> c | None \<Rightarrow> Null)"

definition getitem :: "'n dataframe \<Rightarrow> string \<Rightarrow> py_error + 'n selection" where
  "getitem fd name =
    (if name \<notin> set (columns fd) then Inl (KeyError name)
     else if count_list (columns fd) name = 1
       then Inr (Series (map (\<lambda>r. cell_of (columns fd) r name) (rows fd)))
       else Inr SubFrame)"

text \<open>
  \<^verbatim>\<open>fd[name] = series\<close>: the cells of the column (of every column with that label) are
  replaced; a new label is appended as the last column.
\<close>

definition setitem :: "'n dataframe \<Rightarrow> string \<Rightarrow> 'n cell list \<Rightarrow> 'n dataframe" where
  "setitem fd name cs =
    (if name \<in> set (columns fd)
     then fd\<lparr>rows := map2 (\<lambda>r c. map2 (\<lambda>col v. if col = name then c else v) (columns fd) r)
                          (rows fd) cs\<rparr>
     else fd\<lparr>columns := columns fd @ [name], rows := map2 (\<lambda>r c. r @ [c]) (rows fd) cs\<rparr>)"

section \<open>The conversions of pandas\<close>

text \<open>
  The two conversions of strings are library code; they are parameters of the model.
  What pandas reads from a string is a value, or the missing value (the empty string and
  the spellings of \<^verbatim>\<open>NaT\<close> and \<^verbatim>\<open>NaN\<close> are read so), or nothing at all: \<open>td s\<close> is
  what \<^verbatim>\<open>pd.to_datetime\<close> reads from \<open>s\<close> with the format \<^verbatim>\<open>%Y-%b-%d %H:%M\<close>,
  \<open>Unreadable\<close> when \<open>s\<close> does not match the format; \<open>tn s\<close> is what
  \<^verbatim>\<open>pd.to_numeric\<close> reads from \<open>s\<close>, \<open>Unreadable\<close> when \<open>s\<close> is no number. The
  conversions are applied to the cells of a frame built from the payload, which are
  strings or \<^verbatim>\<open>None\<close>.
\<close>

datatype 'a reading = Reads 'a | ReadsMissing | Unreadable

text \<open>Line 70 passes no \<^verbatim>\<open>errors\<close> argument: an unreadable string raises.\<close>

fun to_datetime_cell :: "(string \<Rightarrow> timestamp reading) \<Rightarrow> 'n cell \<Rightarrow> py_error + 'n cell" where
  "to_datetime_cell td (Str s) =
     (case td s of
        Reads t \<Rightarrow> Inr (Time t)
      | ReadsMissing \<Rightarrow> Inr NaT
      | Unreadable \<Rightarrow> Inl ValueError)"
| "to_datetime_cell td Null = Inr NaT"
| "to_datetime_cell td c = Inl OutsideModel"

text \<open>Lines 71 to 73 pass \<^verbatim>\<open>errors='coerce'\<close>: an unreadable string becomes \<open>NaN\<close>.\<close>

fun to_numeric_cell :: "(string \<Rightarrow> 'n reading) \<Rightarrow> 'n cell \<Rightarrow> py_error + 'n cell" where
  "to_numeric_cell tn (Str s) =
     (case tn s of
        Reads x \<Rightarrow> Inr (Num x)
      | ReadsMissing \<Rightarrow> Inr NaN
      | Unreadable \<Rightarrow> Inr NaN)"
| "to_numeric_cell tn Null = Inr NaN"
| "to_numeric_cell tn c = Inl OutsideModel"

text \<open>
  Given a frame instead of a \<^verbatim>\<open>Series\<close>, \<^verbatim>\<open>pd.to_datetime\<close> looks for year, month
  and day columns and raises \<^verbatim>\<open>ValueError\<close>, and \<^verbatim>\<open>pd.to_numeric\<close> raises
  \<^verbatim>\<open>TypeError\<close>.
\<close>

definition to_datetime :: "(string \<Rightarrow> timestamp reading) \<Rightarrow> 'n selection \<Rightarrow> py_error + 'n cell list" where
  "to_datetime td sel =
    (case sel of Series cs \<Rightarrow> collect (map (to_datetime_cell td) cs) | SubFrame \<Rightarrow> Inl ValueError)"

definition to_numeric :: "(string \<Rightarrow> 'n reading) \<Rightarrow> 'n selection \<Rightarrow> py_error + 'n cell list" where
  "to_numeric tn sel =
    (case sel of Series cs \<Rightarrow> collect (map (to_numeric_cell tn) cs) | SubFrame \<Rightarrow> Inl TypeError)"

section \<open>The normalizer (lines 60 to 75)\<close>

text \<open>\<^verbatim>\<open>d.get(k, default)\<close>\<close>

definition dict_get :: "(string \<times> 'a) list \<Rightarrow> string \<Rightarrow> 'a \<Rightarrow> 'a" where
  "dict_get d k dflt = (case map_of d k of Some v \<Rightarrow> v | None \<Rightarrow> dflt)"

text \<open>\<^verbatim>\<open>v == 0\<close> in Python: true of the numbers equal to zero and of \<^verbatim>\<open>False\<close>.\<close>

fun py_eq_zero :: "('n::zero) json \<Rightarrow> bool" where
  "py_eq_zero (JInt n) = (n = 0)"
| "py_eq_zero (JFloat x) = (x = 0)"
| "py_eq_zero (JBool b) = (\<not> b)"
| "py_eq_zero j = False"

text \<open>
  The payload's field list as column labels and its records as rows of cells. The
  provider sends labels that are strings and records that are lists of strings and nulls;
  other shapes are not modelled.
\<close>

fun as_label :: "'n json \<Rightarrow> string option" where
  "as_label (JStr s) = Some s"
| "as_label j = None"

fun as_cell :: "'n json \<Rightarrow> 'n cell option" where
  "as_cell (JStr s) = Some (Str s)"
| "as_cell JNull = Some Null"
| "as_cell j = None"

fun as_labels :: "'n json \<Rightarrow> string list option" where
  "as_labels (JList xs) = those (map as_label xs)"
| "as_labels j = None"

fun as_record :: "'n json \<Rightarrow> 'n cell list option" where
  "as_record (JList cs) = those (map as_cell cs)"
| "as_record j = None"

fun as_records :: "'n json \<Rightarrow> 'n cell list list option" where
  "as_records (JList rs) = those (map as_record rs)"
| "as_records j = None"

text \<open>One line of the form \<^verbatim>\<open>fd[name] = convert(fd[name])\<close>.\<close>

definition convert_column ::
  "('n selection \<Rightarrow> py_error + 'n cell list) \<Rightarrow> string \<Rightarrow> 'n dataframe \<Rightarrow> py_error + 'n dataframe" where
  "convert_column conv name fd =
    and_then (getitem fd name) (\<lambda>sel. and_then (conv sel) (\<lambda>cs. Inr (setitem fd name cs)))"

text \<open>Lines 67 to 75.\<close>

definition build_frame ::
  "(string \<Rightarrow> timestamp reading) \<Rightarrow> (string \<Rightarrow> 'n reading) \<Rightarrow> 'n json \<Rightarrow> 'n json
     \<Rightarrow> py_error + 'n dataframe" where
  "build_frame td tn field_list record_list =
    (case (as_labels field_list, as_records record_list) of
       (Some fs, Some rs) \<Rightarrow>
         and_then (DataFrame rs fs) (\<lambda>fd.
         and_then (convert_column (to_datetime td) ''cd'' fd) (\<lambda>fd.
         and_then (convert_column (to_numeric tn) ''dist'' fd) (\<lambda>fd.
         and_then (convert_column (to_numeric tn) ''v_rel'' fd) (\<lambda>fd.
         convert_column (to_numeric tn) ''v_inf'' fd))))
     | _ \<Rightarrow> Inl OutsideModel)"

definition parse_data ::
  "(string \<Rightarrow> timestamp reading) \<Rightarrow> (string \<Rightarrow> 'n reading) \<Rightarrow> ('n::zero) json
     \<Rightarrow> 'n effect list \<times> (py_error + 'n dataframe)" where
  "parse_data td tn data =
    (case data of
       JNull \<Rightarrow> ([StWarning NoCloseApproaches], Inr empty_frame)
     | JObj d \<Rightarrow>
         if py_eq_zero (dict_get d ''count'' (JInt 0))
         then ([StWarning NoCloseApproaches], Inr empty_frame)
         else ([], build_frame td tn (dict_get d ''fields'' (JList []))
                     (dict_get d ''data'' (JList [])))
     | _ \<Rightarrow> ([], Inl (AttributeError ''get'')))"

section \<open>The combiner (lines 252 and 253)\<close>

text \<open>
  \<^verbatim>\<open>pd.concat([a, b], ignore_index=True)\<close>: the rows of \<open>a\<close>, then those of \<open>b\<close>.
  Modelled for two frames with the same column labels, and for a frame with distinct
  labels and \<^verbatim>\<open>pd.DataFrame()\<close>, which are the frames that \<^verbatim>\<open>parse_data\<close> returns
  for two answers of the provider.
\<close>

definition pd_concat :: "'n dataframe \<Rightarrow> 'n dataframe \<Rightarrow> py_error + 'n dataframe" where
  "pd_concat a b =
    (if columns a = columns b then Inr \<lparr>columns = columns a, rows = rows a @ rows b\<rparr>
     else if b = empty_frame \<and> distinct (columns a) then Inr a
     else if a = empty_frame \<and> distinct (columns b) then Inr b
     else Inl OutsideModel)"

text \<open>
  \<^verbatim>\<open>drop_duplicates\<close> keeps the first of the rows that are equal in every column: a row
  is dropped when an equal row stands before it.
\<close>

fun drop_seen :: "'a list \<Rightarrow> 'a list \<Rightarrow> 'a list" where
  "drop_seen seen [] = []"
| "drop_seen seen (r # rs) =
     (if r \<in> set seen then drop_seen seen rs else r # drop_seen (r # seen) rs)"

definition drop_duplicates :: "'n dataframe \<Rightarrow> 'n dataframe" where
  "drop_duplicates fd = fd\<lparr>rows := drop_seen [] (rows fd)\<rparr>"

definition combine :: "'n dataframe \<Rightarrow> 'n dataframe \<Rightarrow> py_error + 'n dataframe" where
  "combine fd_neo fd_comet =
    and_then (pd_concat fd_neo fd_comet) (\<lambda>fd. Inr (drop_duplicates fd))"

section \<open>The rows the specification describes\<close>

text \<open>
  Following the specification (4.3 and 7): the field names are zipped with the values of a
  record, and each value is converted by the name of its field; a value that cannot be
  converted becomes the missing marker.
\<close>

definition convert_field ::
  "(string \<Rightarrow> timestamp reading) \<Rightarrow> (string \<Rightarrow> 'n reading) \<Rightarrow> string \<Rightarrow> string \<Rightarrow> 'n cell" where
  "convert_field td tn name v =
    (if name = ''cd''
       then (case td v of Reads t \<Rightarrow> Time t | ReadsMissing \<Rightarrow> NaT | Unreadable \<Rightarrow> NaT)
     else if name \<in> {''dist'', ''v_rel'', ''v_inf''}
       then (case tn v of Reads x \<Rightarrow> Num x | ReadsMissing \<Rightarrow> NaN | Unreadable \<Rightarrow> NaN)
       else Str v)"

definition row_of_record ::
  "(string \<Rightarrow> timestamp reading) \<Rightarrow> (string \<Rightarrow> 'n reading) \<Rightarrow> string list \<Rightarrow> string list
     \<Rightarrow> 'n cell list" where
  "row_of_record td tn fs r = map2 (convert_field td tn) fs r"

section \<open>The scenarios of the specification\<close>

text \<open>
  The answers of the two conversions on the strings of the specification's scenarios
  (section 8); every other string is taken as one that cannot be read.
\<close>

definition scenario_td :: "string \<Rightarrow> timestamp reading" where
  "scenario_td s =
    (case map_of [(''2025-Jan-15 03:20'', Timestamp 2025 1 15 3 20)] s of
       Some t \<Rightarrow> Reads t
     | None \<Rightarrow> Unreadable)"

definition scenario_tn :: "string \<Rightarrow> rat reading" where
  "scenario_tn s =
    (case map_of [(''0.0123'', 123 / 10000), (''7.5'', 15 / 2), (''7.4'', 37 / 5)] s of
       Some x \<Rightarrow> Reads x
     | None \<Rightarrow> Unreadable)"

definition scenario_fields :: "string list" where
  "scenario_fields = [''des'', ''cd'', ''dist'', ''v_rel'', ''v_inf'']"

definition scenario_payload :: "string list list \<Rightarrow> rat json" where
  "scenario_payload recs =
    JObj [(''count'', JInt (int (length recs))),
          (''fields'', JList (map JStr scenario_fields)),
          (''data'', JList (map (\<lambda>r. JList (map JStr r)) recs))]"

section \<open>Auxiliary facts\<close>

lemma build_params_NEO:
  "build_params b mn mx d u l ''NEO'' =
     Inr (my_params_literal b mn mx d u l @ [(''neo'', PStr ''true'')])"
  by (simp add: build_params_def object_type_filter_def load_name_def fetch_locals_def
      my_params_literal_def)

lemma build_params_other:
  "ot \<noteq> ''NEO'' \<Longrightarrow> build_params b mn mx d u l ot = Inl (NameError ''object_tye'')"
  by (simp add: build_params_def object_type_filter_def load_name_def fetch_locals_def
      module_names_def)

lemma fetch_NEO:
  "fetch_close_approaches net b mn mx d u l ''NEO'' =
    (let p = my_params_literal b mn mx d u l @ [(''neo'', PStr ''true'')]
     in case try_request (net url p) of
          (_, Inr data) \<Rightarrow> ([HttpGet url p], Inr data)
        | (resp, Inl e) \<Rightarrow>
            (let (shown, ret) = handle_exception resp e in (HttpGet url p # shown, ret)))"
  by (simp add: fetch_close_approaches_def build_params_NEO Let_def)

lemma requests_of_fetch:
  "HttpGet u p \<in> set (fst (fetch_close_approaches net b mn mx d un l ot)) \<Longrightarrow>
     ot = ''NEO'' \<and> u = url \<and> p = my_params_literal b mn mx d un l @ [(''neo'', PStr ''true'')]"
  apply (cases "ot = ''NEO''")
   apply (auto simp: fetch_NEO Let_def handle_exception_def
      split: prod.splits sum.splits request_exception.splits option.splits)
  apply (simp_all add: fetch_close_approaches_def build_params_other)
  done

lemma build_params_Inr:
  "build_params b mn mx d un l ot = Inr p \<Longrightarrow>
     ot = ''NEO'' \<and> p = my_params_literal b mn mx d un l @ [(''neo'', PStr ''true'')]"
  by (cases "ot = ''NEO''") (auto simp: build_params_NEO build_params_other)

section \<open>The parameter builder and the fetcher\<close>

text \<open>
  Claim C1. Whenever \<^verbatim>\<open>object_type\<close> is not \<^verbatim>\<open>'NEO'\<close> (\<^verbatim>\<open>'Comet'\<close> for one),
  \<^verbatim>\<open>fetch_close_approaches\<close> raises \<^verbatim>\<open>NameError\<close> for the name \<^verbatim>\<open>object_tye\<close> of
  line 38; it has issued no request and shown no message by then.
\<close>

theorem fetch_other_object_type_NameError:
  "object_type \<noteq> ''NEO'' \<Longrightarrow>
     fetch_close_approaches net body_code min_date max_date max_dist dist_unit my_limit object_type
       = ([], Inl (NameError ''object_tye''))"
  by (simp add: fetch_close_approaches_def build_params_other)

theorem fetch_other_object_type_NameError_witness:
  "''Comet'' \<noteq> ''NEO'' \<and>
   fetch_close_approaches (\<lambda>u p. RequestFailed ''timed out'' :: rat http_event)
       ''Earth'' ''now'' ''+60'' ''0.05'' ''AU'' 100 ''Comet''
     = ([], Inl (NameError ''object_tye''))"
  using fetch_other_object_type_NameError
    [of "''Comet''" "\<lambda>u p. RequestFailed ''timed out''" "''Earth''" "''now''" "''+60''"
        "''0.05''" "''AU''" 100]
  by simp

text \<open>
  Claim C2. The parameters that the builder returns, and the parameters of every request
  that \<^verbatim>\<open>fetch_close_approaches\<close> issues, hold at most one object-type flag: \<^verbatim>\<open>neo\<close>
  with the value \<^verbatim>\<open>'true'\<close> and no \<^verbatim>\<open>comet\<close>, or \<^verbatim>\<open>comet\<close> with the value
  \<^verbatim>\<open>'true'\<close> and no \<^verbatim>\<open>neo\<close>, or neither key; neither flag has the value \<^verbatim>\<open>both\<close>.
\<close>

theorem request_object_type_flags:
  "build_params body_code min_date max_date max_dist dist_unit my_limit object_type = Inr p
     \<or> HttpGet u p \<in> set (fst (fetch_close_approaches net body_code min_date max_date max_dist
                                  dist_unit my_limit object_type)) \<Longrightarrow>
     ((map_of p ''neo'' = Some (PStr ''true'') \<and> map_of p ''comet'' = None)
      \<or> (map_of p ''comet'' = Some (PStr ''true'') \<and> map_of p ''neo'' = None)
      \<or> (map_of p ''neo'' = None \<and> map_of p ''comet'' = None))
     \<and> map_of p ''neo'' \<notin> {Some (PStr ''both''), Some (PStr ''Both'')}
     \<and> map_of p ''comet'' \<notin> {Some (PStr ''both''), Some (PStr ''Both'')}"
proof -
  assume "build_params body_code min_date max_date max_dist dist_unit my_limit object_type = Inr p
     \<or> HttpGet u p \<in> set (fst (fetch_close_approaches net body_code min_date max_date max_dist
                                  dist_unit my_limit object_type))"
  then have "p = my_params_literal body_code min_date max_date max_dist dist_unit my_limit
                   @ [(''neo'', PStr ''true'')]"
    using build_params_Inr requests_of_fetch by blast
  then show ?thesis by (simp add: my_params_literal_def)
qed

theorem request_object_type_flags_witness:
  "build_params ''Earth'' ''now'' ''+60'' ''0.05'' ''AU'' 100 ''NEO''
     = Inr (my_params_literal ''Earth'' ''now'' ''+60'' ''0.05'' ''AU'' 100
              @ [(''neo'', PStr ''true'')])
   \<and> HttpGet url (my_params_literal ''Earth'' ''now'' ''+60'' ''0.05'' ''AU'' 100
                    @ [(''neo'', PStr ''true'')])
       \<in> set (fst (fetch_close_approaches (\<lambda>u p. RequestFailed ''timed out'' :: rat http_event)
                     ''Earth'' ''now'' ''+60'' ''0.05'' ''AU'' 100 ''NEO''))
   \<and> map_of (my_params_literal ''Earth'' ''now'' ''+60'' ''0.05'' ''AU'' 100
               @ [(''neo'', PStr ''true'')]) ''neo'' = Some (PStr ''true'')
   \<and> map_of (my_params_literal ''Earth'' ''now'' ''+60'' ''0.05'' ''AU'' 100
               @ [(''neo'', PStr ''true'')]) ''comet'' = None"
  using request_object_type_flags
    [of "''Earth''" "''now''" "''+60''" "''0.05''" "''AU''" 100 "''NEO''"
        "my_params_literal ''Earth'' ''now'' ''+60'' ''0.05'' ''AU'' 100
           @ [(''neo'', PStr ''true'')]"
        url "\<lambda>u p. RequestFailed ''timed out'' :: rat http_event"]
  by (simp add: build_params_NEO fetch_NEO try_request_def handle_exception_def
      my_params_literal_def)

text \<open>
  Claim C3. For every body code, minimum and maximum date, distance magnitude, unit and
  limit, the \<^verbatim>\<open>dist-max\<close> entry of the dictionary of lines 27 to 33 is the magnitude
  followed by the unit, with nothing between them, and so is the \<^verbatim>\<open>dist-max\<close> entry of
  the parameters that the builder returns and of the parameters of every request issued.
\<close>

theorem dist_max_is_magnitude_then_unit:
  "map_of (my_params_literal body_code min_date max_date max_dist dist_unit my_limit) ''dist-max''
     = Some (PStr (max_dist @ dist_unit))
   \<and> (\<forall>p. build_params body_code min_date max_date max_dist dist_unit my_limit object_type = Inr p
         \<longrightarrow> map_of p ''dist-max'' = Some (PStr (max_dist @ dist_unit)))
   \<and> (\<forall>u p. HttpGet u p \<in> set (fst (fetch_close_approaches net body_code min_date max_date
                                        max_dist dist_unit my_limit object_type))
         \<longrightarrow> map_of p ''dist-max'' = Some (PStr (max_dist @ dist_unit)))"
  by (auto dest!: requests_of_fetch build_params_Inr simp: my_params_literal_def)

theorem dist_max_is_magnitude_then_unit_witness:
  "map_of BODY_CODES ''Earth'' = Some ''Earth''
   \<and> build_params ''Earth'' ''now'' ''+60'' ''0.05'' ''AU'' 100 ''NEO''
       = Inr (my_params_literal ''Earth'' ''now'' ''+60'' ''0.05'' ''AU'' 100
                @ [(''neo'', PStr ''true'')])
   \<and> HttpGet url (my_params_literal ''Earth'' ''now'' ''+60'' ''0.05'' ''AU'' 100
                    @ [(''neo'', PStr ''true'')])
       \<in> set (fst (fetch_close_approaches (\<lambda>u p. RequestFailed ''timed out'' :: rat http_event)
                     ''Earth'' ''now'' ''+60'' ''0.05'' ''AU'' 100 ''NEO''))
   \<and> map_of (my_params_literal ''Earth'' ''now'' ''+60'' ''0.05'' ''AU'' 100
               @ [(''neo'', PStr ''true'')]) ''dist-max'' = Some (PStr ''0.05AU'')"
  using dist_max_is_magnitude_then_unit
    [of "''Earth''" "''now''" "''+60''" "''0.05''" "''AU''" 100 "''NEO''"
        "\<lambda>u p. RequestFailed ''timed out'' :: rat http_event"]
  by (simp add: build_params_NEO fetch_NEO try_request_def handle_exception_def
      my_params_literal_def BODY_CODES_def)

text \<open>
  Claim C9. Once the parameters are built and the request is issued, the fetcher returns
  \<^verbatim>\<open>None\<close> for a failed fetch and tells two kinds of failure apart. For an error
  response (a status from 400 to 599) it shows the description of the \<^verbatim>\<open>HTTPError\<close>,
  then the decoded body when the body decodes as JSON and the text that no additional
  information was provided when it does not. For a failure of the transport it shows the
  description of the exception; an answer with another status whose body does not decode
  is shown the same way. For an answer with another status whose body decodes, it shows
  nothing and returns the decoded body as it is.
\<close>

theorem fetch_outcomes:
  "build_params body_code min_date max_date max_dist dist_unit my_limit object_type = Inr p \<Longrightarrow>
   (net url p = RequestFailed t \<longrightarrow>
      fetch_close_approaches net body_code min_date max_date max_dist dist_unit my_limit object_type
        = ([HttpGet url p, StError (ErrorFetching t)], Inr JNull))
   \<and> (net url p = Responded r \<and> 400 \<le> status_code r \<and> status_code r < 600
        \<and> body r = Decodes j \<longrightarrow>
      fetch_close_approaches net body_code min_date max_date max_dist dist_unit my_limit object_type
        = ([HttpGet url p, StError (HttpErrorOccurred (http_error_text r)),
            StError (ErrorDetails j)], Inr JNull))
   \<and> (net url p = Responded r \<and> 400 \<le> status_code r \<and> status_code r < 600
        \<and> body r = Undecodable t \<longrightarrow>
      fetch_close_approaches net body_code min_date max_date max_dist dist_unit my_limit object_type
        = ([HttpGet url p, StError (HttpErrorOccurred (http_error_text r)),
            StError NoAdditionalInfo], Inr JNull))
   \<and> (net url p = Responded r \<and> \<not> (400 \<le> status_code r \<and> status_code r < 600)
        \<and> body r = Decodes j \<longrightarrow>
      fetch_close_approaches net body_code min_date max_date max_dist dist_unit my_limit object_type
        = ([HttpGet url p], Inr j))
   \<and> (net url p = Responded r \<and> \<not> (400 \<le> status_code r \<and> status_code r < 600)
        \<and> body r = Undecodable t \<longrightarrow>
      fetch_close_approaches net body_code min_date max_date max_dist dist_unit my_limit object_type
        = ([HttpGet url p, StError (ErrorFetching t)], Inr JNull))"
  by (simp add: fetch_close_approaches_def try_request_def raise_for_status_def
      response_json_def handle_exception_def)

theorem fetch_outcomes_witness:
  "fetch_close_approaches (\<lambda>u p. RequestFailed ''timed out'' :: rat http_event)
       ''Earth'' ''now'' ''+60'' ''0.05'' ''AU'' 100 ''NEO''
     = ([HttpGet url (my_params_literal ''Earth'' ''now'' ''+60'' ''0.05'' ''AU'' 100
                        @ [(''neo'', PStr ''true'')]),
         StError (ErrorFetching ''timed out'')], Inr JNull)
   \<and> fetch_close_approaches
       (\<lambda>u p. Responded \<lparr>status_code = 400, http_error_text = ''400 Client Error'',
                          body = Decodes (JObj [(''code'', JStr ''400'')])\<rparr> :: rat http_event)
       ''Earth'' ''now'' ''+60'' ''0.05'' ''AU'' 100 ''NEO''
     = ([HttpGet url (my_params_literal ''Earth'' ''now'' ''+60'' ''0.05'' ''AU'' 100
                        @ [(''neo'', PStr ''true'')]),
         StError (HttpErrorOccurred ''400 Client Error''),
         StError (ErrorDetails (JObj [(''code'', JStr ''400'')]))], Inr JNull)
   \<and> fetch_close_approaches
       (\<lambda>u p. Responded \<lparr>status_code = 503, http_error_text = ''503 Server Error'',
                          body = Undecodable ''Expecting value''\<rparr> :: rat http_event)
       ''Earth'' ''now'' ''+60'' ''0.05'' ''AU'' 100 ''NEO''
     = ([HttpGet url (my_params_literal ''Earth'' ''now'' ''+60'' ''0.05'' ''AU'' 100
                        @ [(''neo'', PStr ''true'')]),
         StError (HttpErrorOccurred ''503 Server Error''),
         StError NoAdditionalInfo], Inr JNull)
   \<and> fetch_close_approaches
       (\<lambda>u p. Responded \<lparr>status_code = 200, http_error_text = [],
                          body = Decodes (JObj [(''count'', JInt 0)])\<rparr> :: rat http_event)
       ''Earth'' ''now'' ''+60'' ''0.05'' ''AU'' 100 ''NEO''
     = ([HttpGet url (my_params_literal ''Earth'' ''now'' ''+60'' ''0.05'' ''AU'' 100
                        @ [(''neo'', PStr ''true'')])],
        Inr (JObj [(''count'', JInt 0)]))"
proof -
  let ?p = "my_params_literal ''Earth'' ''now'' ''+60'' ''0.05'' ''AU'' 100
              @ [(''neo'', PStr ''true'')]"
  have built: "build_params ''Earth'' ''now'' ''+60'' ''0.05'' ''AU'' 100 ''NEO'' = Inr ?p"
    by (rule build_params_NEO)
  note outcomes = fetch_outcomes [OF built]
  show ?thesis
    using outcomes [of "\<lambda>u p. RequestFailed ''timed out''" "''timed out''"]
      outcomes [of "\<lambda>u p. Responded \<lparr>status_code = 400, http_error_text = ''400 Client Error'',
                                        body = Decodes (JObj [(''code'', JStr ''400'')])\<rparr>"
                   _ "\<lparr>status_code = 400, http_error_text = ''400 Client Error'',
                        body = Decodes (JObj [(''code'', JStr ''400'')])\<rparr>"
                   "JObj [(''code'', JStr ''400'')]"]
      outcomes [of "\<lambda>u p. Responded \<lparr>status_code = 503, http_error_text = ''503 Server Error'',
                                        body = Undecodable ''Expecting value''\<rparr>"
                   "''Expecting value''"
                   "\<lparr>status_code = 503, http_error_text = ''503 Server Error'',
                     body = Undecodable ''Expecting value''\<rparr>"]
      outcomes [of "\<lambda>u p. Responded \<lparr>status_code = 200, http_error_text = [],
                                        body = Decodes (JObj [(''count'', JInt 0)])\<rparr>"
                   _ "\<lparr>status_code = 200, http_error_text = [],
                        body = Decodes (JObj [(''count'', JInt 0)])\<rparr>"
                   "JObj [(''count'', JInt 0)]"]
    by simp
qed

section \<open>Facts about frames and the conversions\<close>

lemma collect_all_Inr:
  "\<forall>c \<in> set cs. g c = Inr (f c) \<Longrightarrow> collect (map g cs) = Inr (map f cs)"
  by (induction cs) auto

lemma collect_Inl:
  "\<exists>x \<in> set xs. x = Inl e \<Longrightarrow> \<forall>x \<in> set xs. x = Inl e \<or> (\<exists>v. x = Inr v) \<Longrightarrow> collect xs = Inl e"
  by (induction xs) (auto split: sum.splits)

lemma map2_same_length:
  "map2 g xs (map f xs) = map (\<lambda>x. g x (f x)) xs"
  by (induction xs) auto

lemma map2_no_name:
  "name \<notin> set cols \<Longrightarrow> length r = length cols \<Longrightarrow>
     map2 (\<lambda>col v. if col = name then x col v else h col v) cols r = map2 h cols r"
  by (induction cols r rule: list_induct2') auto

lemma cell_of_map2_Cons:
  "cell_of (col # cols) (v # r) name = (if col = name then v else cell_of cols r name)"
  by (simp add: cell_of_def)

lemma map2_cell_of:
  "count_list cols name \<le> 1 \<Longrightarrow> length r = length cols \<Longrightarrow>
     map2 (\<lambda>col v. if col = name then g (cell_of cols r name) else v) cols r
       = map2 (\<lambda>col v. if col = name then g v else v) cols r"
proof (induction cols r rule: list_induct2')
  case (4 col cols v r)
  show ?case
  proof (cases "col = name")
    case True
    with 4 have "name \<notin> set cols" by (auto simp: count_list_0_iff)
    with 4 True show ?thesis
      using map2_no_name [of name cols r "\<lambda>_ _. g v" "\<lambda>_ v. v"]
            map2_no_name [of name cols r "\<lambda>_ v. g v" "\<lambda>_ v. v"]
      by (simp add: cell_of_map2_Cons)
  next
    case False
    with 4 show ?thesis by (simp add: cell_of_map2_Cons)
  qed
qed auto

lemma map2_map2:
  "map2 g xs (map2 h xs ys) = map2 (\<lambda>x y. g x (h x y)) xs ys"
  by (induction xs ys rule: list_induct2') auto

lemma count_one_mem: "count_list xs x = 1 \<Longrightarrow> x \<in> set xs"
  using count_list_0_iff [of xs x] by auto

lemma getitem_unique:
  "count_list (columns fd) name = 1 \<Longrightarrow>
     getitem fd name = Inr (Series (map (\<lambda>r. cell_of (columns fd) r name) (rows fd)))"
  by (simp add: getitem_def count_one_mem)

lemma setitem_converted:
  assumes "count_list (columns fd) name = 1"
    and "\<forall>r \<in> set (rows fd). length r = length (columns fd)"
  shows "setitem fd name (map (\<lambda>r. f (cell_of (columns fd) r name)) (rows fd))
           = fd\<lparr>rows := map (\<lambda>r. map2 (\<lambda>col v. if col = name then f v else v) (columns fd) r)
                             (rows fd)\<rparr>"
proof -
  from assms(1) have "name \<in> set (columns fd)"
    by (rule count_one_mem)
  moreover have "map (\<lambda>r. map2 (\<lambda>col v. if col = name then f (cell_of (columns fd) r name) else v)
                      (columns fd) r) (rows fd)
       = map (\<lambda>r. map2 (\<lambda>col v. if col = name then f v else v) (columns fd) r) (rows fd)"
    using assms by (intro map_cong refl map2_cell_of) auto
  ultimately show ?thesis
    by (simp add: setitem_def map2_same_length)
qed

lemma convert_column_unique:
  assumes "count_list (columns fd) name = 1"
    and "\<forall>r \<in> set (rows fd). length r = length (columns fd)"
    and "\<forall>r \<in> set (rows fd). \<exists>x. g (cell_of (columns fd) r name) = Inr x"
    and "\<And>cs. conv (Series cs) = collect (map g cs)"
  shows "convert_column conv name fd
           = Inr (fd\<lparr>rows := map (\<lambda>r. map2 (\<lambda>col v. if col = name then projr (g v) else v)
                                         (columns fd) r) (rows fd)\<rparr>)"
proof -
  have "collect (map g (map (\<lambda>r. cell_of (columns fd) r name) (rows fd)))
          = Inr (map (\<lambda>c. projr (g c)) (map (\<lambda>r. cell_of (columns fd) r name) (rows fd)))"
    using assms(3) by (intro collect_all_Inr) auto
  then show ?thesis
    using setitem_converted [OF assms(1,2), of "\<lambda>c. projr (g c)"]
    by (simp add: convert_column_def and_then_def getitem_unique [OF assms(1)] assms(4) comp_def)
qed

lemma cell_of_map2_zip:
  "length r = length cols \<Longrightarrow> name \<in> set cols \<Longrightarrow>
     \<exists>v. (name, v) \<in> set (zip cols r) \<and> cell_of cols (map2 h cols r) name = h name v"
  by (induction cols r rule: list_induct2') (auto simp: cell_of_map2_Cons)

lemma those_map_Some: "those (map (\<lambda>x. Some (f x)) xs) = Some (map f xs)"
  by (induction xs) auto

lemma as_labels_strings: "as_labels (JList (map JStr fs)) = Some fs"
  using those_map_Some [of "\<lambda>s. s" fs] by (simp add: comp_def)

lemma as_records_strings:
  "as_records (JList (map (\<lambda>r. JList (map JStr r)) recs)) = Some (map (map Str) recs)"
  by (simp add: comp_def those_map_Some)

lemma fold_max_const:
  "\<forall>x \<in> set xs. x = (n::nat) \<Longrightarrow> fold max xs m = (if xs = [] then m else max m n)"
  by (induction xs arbitrary: m) (auto simp: max_def)

lemma DataFrame_aligned:
  assumes "\<forall>r \<in> set rs. length r = length fs"
  shows "DataFrame rs fs = Inr \<lparr>columns = fs, rows = rs\<rparr>"
proof (cases "rs = []")
  case True
  then show ?thesis by (simp add: DataFrame_def)
next
  case False
  have "fold max (map length rs) 0 = length fs"
    using fold_max_const [of "map length rs" "length fs" 0] assms False by simp
  moreover have "map (\<lambda>r. r @ replicate (length fs - length r) Null) rs = rs"
    using assms by (induction rs) auto
  ultimately show ?thesis using False by (simp add: DataFrame_def)
qed

lemma convert_stage:
  assumes one: "count_list fs name = 1"
    and len: "\<forall>r \<in> set recs. length r = length fs"
    and ok: "\<forall>r \<in> set recs. \<forall>v. (name, v) \<in> set (zip fs r) \<longrightarrow> (\<exists>x. g (h name v) = Inr x)"
    and conv: "\<And>cs. conv (Series cs) = collect (map g cs)"
  shows "convert_column conv name \<lparr>columns = fs, rows = map (\<lambda>r. map2 h fs r) recs\<rparr>
           = Inr \<lparr>columns = fs,
                  rows = map (\<lambda>r. map2 (\<lambda>col v. if col = name then projr (g (h col v)) else h col v)
                                    fs r) recs\<rparr>"
proof -
  let ?fd = "\<lparr>columns = fs, rows = map (\<lambda>r. map2 h fs r) recs\<rparr>"
  have mem: "name \<in> set fs" using one by (rule count_one_mem)
  have 1: "count_list (columns ?fd) name = 1" using one by simp
  have 2: "\<forall>r \<in> set (rows ?fd). length r = length (columns ?fd)" using len by auto
  have 3: "\<forall>r \<in> set (rows ?fd). \<exists>x. g (cell_of (columns ?fd) r name) = Inr x"
  proof
    fix row assume "row \<in> set (rows ?fd)"
    then obtain r where r: "r \<in> set recs" "row = map2 h fs r" by auto
    with len have "length r = length fs" by simp
    from cell_of_map2_zip [OF this mem, of h]
    obtain v where "(name, v) \<in> set (zip fs r)" "cell_of fs (map2 h fs r) name = h name v"
      by blast
    with ok r show "\<exists>x. g (cell_of (columns ?fd) row name) = Inr x" by auto
  qed
  show ?thesis
    using convert_column_unique [OF 1 2 3 conv]
    by (simp add: map2_map2 comp_def)
qed

lemma map2_ignore_fst: "length r = length fs \<Longrightarrow> map2 (\<lambda>col v. f v) fs r = map f r"
  by (induction fs r rule: list_induct2') auto

lemma to_datetime_Series: "to_datetime td (Series cs) = collect (map (to_datetime_cell td) cs)"
  by (simp add: to_datetime_def)

lemma to_numeric_Series: "to_numeric tn (Series cs) = collect (map (to_numeric_cell tn) cs)"
  by (simp add: to_numeric_def)

lemma to_numeric_cell_Str:
  "to_numeric_cell tn (Str v) = Inr (case tn v of Reads x \<Rightarrow> Num x | ReadsMissing \<Rightarrow> NaN | Unreadable \<Rightarrow> NaN)"
  by (cases "tn v") simp_all

lemma numeric_stage:
  assumes one: "count_list fs name = 1"
    and len: "\<forall>r \<in> set recs. length r = length fs"
    and raw: "\<And>v. h name v = Str v"
  shows "convert_column (to_numeric tn) name \<lparr>columns = fs, rows = map (\<lambda>r. map2 h fs r) recs\<rparr>
           = Inr \<lparr>columns = fs,
                  rows = map (\<lambda>r. map2 (\<lambda>col v. if col = name
                                              then (case tn v of Reads x \<Rightarrow> Num x | ReadsMissing \<Rightarrow> NaN | Unreadable \<Rightarrow> NaN)
                                              else h col v) fs r) recs\<rparr>"
proof -
  have ok: "\<forall>r \<in> set recs. \<forall>v. (name, v) \<in> set (zip fs r)
              \<longrightarrow> (\<exists>x. to_numeric_cell tn (h name v) = Inr x)"
    by (simp only: raw to_numeric_cell_Str) blast
  have eq: "(\<lambda>col v. if col = name then projr (to_numeric_cell tn (h col v)) else h col v)
          = (\<lambda>col v. if col = name then (case tn v of Reads x \<Rightarrow> Num x | ReadsMissing \<Rightarrow> NaN | Unreadable \<Rightarrow> NaN)
                      else h col v)"
    by (intro ext) (simp add: raw to_numeric_cell_Str del: to_numeric_cell.simps)
  show ?thesis
    by (simp only: eq convert_stage [of fs name recs "to_numeric_cell tn" h "to_numeric tn",
          OF one len ok to_numeric_Series])
qed

lemma datetime_stage:
  assumes one: "count_list fs ''cd'' = 1"
    and len: "\<forall>r \<in> set recs. length r = length fs"
    and dates: "\<forall>r \<in> set recs. \<forall>v. (''cd'', v) \<in> set (zip fs r) \<longrightarrow> td v \<noteq> Unreadable"
  shows "convert_column (to_datetime td) ''cd''
            \<lparr>columns = fs, rows = map (\<lambda>r. map2 (\<lambda>col v. Str v) fs r) recs\<rparr>
           = Inr \<lparr>columns = fs,
                  rows = map (\<lambda>r. map2 (\<lambda>col v. if col = ''cd''
                                              then (case td v of Reads t \<Rightarrow> Time t | ReadsMissing \<Rightarrow> NaT | Unreadable \<Rightarrow> NaT)
                                              else Str v) fs r) recs\<rparr>"
proof -
  have ok: "\<forall>r \<in> set recs. \<forall>v. (''cd'', v) \<in> set (zip fs r)
              \<longrightarrow> (\<exists>x. to_datetime_cell td (Str v) = Inr x)"
    using dates by (auto split: reading.splits)
  have eq: "map (\<lambda>r. map2 (\<lambda>col v. if col = ''cd'' then projr (to_datetime_cell td (Str v)) else Str v)
                    fs r) recs
          = map (\<lambda>r. map2 (\<lambda>col v. if col = ''cd''
                                   then (case td v of Reads t \<Rightarrow> Time t | ReadsMissing \<Rightarrow> NaT | Unreadable \<Rightarrow> NaT)
                                   else Str v) fs r) recs"
  proof (intro map_cong refl)
    fix r p assume "r \<in> set recs" "p \<in> set (zip fs r)"
    with dates have "fst p = ''cd'' \<longrightarrow> td (snd p) \<noteq> Unreadable"
      by (cases p) auto
    then show "(case p of (col, v) \<Rightarrow>
                  if col = ''cd'' then projr (to_datetime_cell td (Str v)) else Str v)
             = (case p of (col, v) \<Rightarrow>
                  if col = ''cd''
                  then (case td v of Reads t \<Rightarrow> Time t | ReadsMissing \<Rightarrow> NaT
                        | Unreadable \<Rightarrow> NaT)
                  else Str v)"
      by (cases p) (auto split: reading.splits)
  qed
  show ?thesis
    by (simp only: eq convert_stage [of fs "''cd''" recs "to_datetime_cell td" "\<lambda>col v. Str v"
          "to_datetime td", OF one len ok to_datetime_Series])
qed

lemma build_frame_well_formed:
  assumes len: "\<forall>r \<in> set recs. length r = length fs"
    and cd: "count_list fs ''cd'' = 1"
    and dist: "count_list fs ''dist'' = 1"
    and v_rel: "count_list fs ''v_rel'' = 1"
    and v_inf: "count_list fs ''v_inf'' = 1"
    and dates: "\<forall>r \<in> set recs. \<forall>v. (''cd'', v) \<in> set (zip fs r) \<longrightarrow> td v \<noteq> Unreadable"
  shows "build_frame td tn (JList (map JStr fs)) (JList (map (\<lambda>r. JList (map JStr r)) recs))
           = Inr \<lparr>columns = fs, rows = map (row_of_record td tn fs) recs\<rparr>"
proof -
  let ?D = "\<lambda>v. case td v of Reads t \<Rightarrow> Time t | ReadsMissing \<Rightarrow> NaT | Unreadable \<Rightarrow> NaT"
  let ?N = "\<lambda>v. case tn v of Reads x \<Rightarrow> Num x | ReadsMissing \<Rightarrow> NaN | Unreadable \<Rightarrow> NaN"
  let ?h0 = "\<lambda>(col::string) v. Str v"
  let ?h1 = "\<lambda>col v. if col = ''cd'' then ?D v else ?h0 col v"
  let ?h2 = "\<lambda>col v. if col = ''dist'' then ?N v else ?h1 col v"
  let ?h3 = "\<lambda>col v. if col = ''v_rel'' then ?N v else ?h2 col v"
  let ?h4 = "\<lambda>col v. if col = ''v_inf'' then ?N v else ?h3 col v"
  let ?fd = "\<lambda>h. \<lparr>columns = fs, rows = map (\<lambda>r. map2 h fs r) recs\<rparr>"
  have rows0: "map (map Str) recs = map (\<lambda>r. map2 ?h0 fs r) recs"
    using len by (intro map_cong refl) (simp add: map2_ignore_fst)
  have "DataFrame (map (map Str) recs) fs = Inr \<lparr>columns = fs, rows = map (map Str) recs\<rparr>"
    using len by (intro DataFrame_aligned) simp
  then have s0: "DataFrame (map (map Str) recs) fs = Inr (?fd ?h0)"
    by (simp only: rows0)
  have s1: "convert_column (to_datetime td) ''cd'' (?fd ?h0) = Inr (?fd ?h1)"
    by (rule datetime_stage [OF cd len dates])
  have s2: "convert_column (to_numeric tn) ''dist'' (?fd ?h1) = Inr (?fd ?h2)"
    by (rule numeric_stage [OF dist len]) simp
  have s3: "convert_column (to_numeric tn) ''v_rel'' (?fd ?h2) = Inr (?fd ?h3)"
    by (rule numeric_stage [OF v_rel len]) simp
  have s4: "convert_column (to_numeric tn) ''v_inf'' (?fd ?h3) = Inr (?fd ?h4)"
    by (rule numeric_stage [OF v_inf len]) simp
  have "?h4 = convert_field td tn"
    by (intro ext) (simp add: convert_field_def)
  then have final: "?fd ?h4 = \<lparr>columns = fs, rows = map (row_of_record td tn fs) recs\<rparr>"
    by (simp only: row_of_record_def [abs_def])
  have "build_frame td tn (JList (map JStr fs)) (JList (map (\<lambda>r. JList (map JStr r)) recs))
          = Inr (?fd ?h4)"
    unfolding build_frame_def as_labels_strings as_records_strings
    by (simp only: and_then_def s0 s1 s2 s3 s4 prod.case option.case sum.case)
  then show ?thesis by (simp only: final)
qed

lemma map_of_zip_unique:
  "count_list fs name = 1 \<Longrightarrow> (name, v) \<in> set (zip fs r) \<Longrightarrow> map_of (zip fs r) name = Some v"
proof (induction fs r rule: list_induct2')
  case (4 f fs x r)
  show ?case
  proof (cases "f = name")
    case True
    with 4 have "name \<notin> set fs" by (auto simp: count_list_0_iff)
    then have "(name, v) \<notin> set (zip fs r)" by (auto dest: set_zip_leftD)
    with 4 True show ?thesis by auto
  next
    case False
    with 4 show ?thesis by auto
  qed
qed auto

lemma map_of_zip_map2:
  "map_of (zip fs (map2 g fs r)) name = map_option (g name) (map_of (zip fs r) name)"
  by (induction fs r rule: list_induct2') auto

lemma map_of_zip_Str:
  "map_of (zip fs r) name = Some s \<Longrightarrow> cell_of fs (map Str r) name = Str s"
  by (induction fs r rule: list_induct2') (auto simp: cell_of_def split: if_splits)

lemma parse_data_nonzero:
  "map_of d ''count'' = Some (JInt N) \<Longrightarrow> N \<noteq> 0 \<Longrightarrow>
   map_of d ''fields'' = Some field_list \<Longrightarrow> map_of d ''data'' = Some record_list \<Longrightarrow>
     parse_data td tn (JObj d) = ([], build_frame td tn field_list record_list)"
  by (simp add: parse_data_def dict_get_def)

lemma parse_data_well_formed:
  assumes count: "map_of d ''count'' = Some (JInt N)" "N \<noteq> 0"
    and fields: "map_of d ''fields'' = Some (JList (map JStr fs))"
    and data: "map_of d ''data'' = Some (JList (map (\<lambda>r. JList (map JStr r)) recs))"
    and len: "\<forall>r \<in> set recs. length r = length fs"
    and cd: "count_list fs ''cd'' = 1"
    and dist: "count_list fs ''dist'' = 1"
    and v_rel: "count_list fs ''v_rel'' = 1"
    and v_inf: "count_list fs ''v_inf'' = 1"
    and dates: "\<forall>r \<in> set recs. \<forall>s. map_of (zip fs r) ''cd'' = Some s \<longrightarrow> td s \<noteq> Unreadable"
  shows "parse_data td tn (JObj d)
           = ([], Inr \<lparr>columns = fs, rows = map (row_of_record td tn fs) recs\<rparr>)"
proof -
  have "\<forall>r \<in> set recs. \<forall>v. (''cd'', v) \<in> set (zip fs r) \<longrightarrow> td v \<noteq> Unreadable"
  proof (intro ballI allI impI)
    fix r v assume r: "r \<in> set recs" and v: "(''cd'', v) \<in> set (zip fs r)"
    from map_of_zip_unique [OF cd v] have "map_of (zip fs r) ''cd'' = Some v" .
    with dates r show "td v \<noteq> Unreadable" by blast
  qed
  from build_frame_well_formed [OF len cd dist v_rel v_inf this, of tn]
  show ?thesis
    by (simp only: parse_data_nonzero [OF count fields data])
qed

lemma cell_of_Str_or_Null:
  "cell_of fs (map Str r) name = Null \<or> (\<exists>v. cell_of fs (map Str r) name = Str v)"
  by (induction fs r rule: list_induct2') (auto simp: cell_of_def)

lemma to_datetime_cell_raw:
  "c = Null \<or> (\<exists>v. c = Str v) \<Longrightarrow>
     to_datetime_cell td c = Inl ValueError \<or> (\<exists>x. to_datetime_cell td c = Inr x)"
  by (auto split: reading.splits)

lemma and_then_Inl: "and_then (Inl e) f = Inl e"
  by (simp add: and_then_def)

lemma and_then_Inr: "and_then (Inr v) f = f v"
  by (simp add: and_then_def)

lemma build_frame_bad_date:
  fixes tn :: "string \<Rightarrow> 'n reading"
  assumes len: "\<forall>r \<in> set recs. length r = length fs"
    and cd: "count_list fs ''cd'' = 1"
    and r: "r \<in> set recs"
    and s: "map_of (zip fs r) ''cd'' = Some s"
    and bad: "td s = Unreadable"
  shows "build_frame td tn (JList (map JStr fs)) (JList (map (\<lambda>r. JList (map JStr r)) recs))
           = Inl ValueError"
proof -
  let ?rows = "map (map Str) recs :: 'n cell list list"
  let ?fd = "\<lparr>columns = fs, rows = ?rows\<rparr>"
  let ?cs = "map (\<lambda>row. cell_of fs row ''cd'') ?rows"
  have frame: "DataFrame ?rows fs = Inr ?fd"
    using len by (intro DataFrame_aligned) simp
  have sel: "getitem ?fd ''cd'' = Inr (Series ?cs)"
    using getitem_unique [of ?fd "''cd''"] cd by simp
  have "to_datetime_cell td (cell_of fs (map Str r) ''cd'' :: 'n cell) = Inl ValueError"
    by (simp add: map_of_zip_Str [OF s] bad)
  moreover have "cell_of fs (map Str r) ''cd'' \<in> set ?cs"
    using r by (simp add: image_iff comp_def) blast
  ultimately have ex: "\<exists>x \<in> set (map (to_datetime_cell td) ?cs). x = Inl ValueError"
    by (simp add: image_iff) metis
  have all: "\<forall>x \<in> set (map (to_datetime_cell td) ?cs). x = Inl ValueError \<or> (\<exists>v. x = Inr v)"
  proof
    fix x assume "x \<in> set (map (to_datetime_cell td) ?cs)"
    then obtain r' where "x = to_datetime_cell td (cell_of fs (map Str r') ''cd'')"
      by auto
    with to_datetime_cell_raw [OF cell_of_Str_or_Null, of td fs r' "''cd''"]
    show "x = Inl ValueError \<or> (\<exists>v. x = Inr v)" by simp
  qed
  have "to_datetime td (Series ?cs) = Inl ValueError"
    unfolding to_datetime_Series by (rule collect_Inl [OF ex all])
  then have "convert_column (to_datetime td) ''cd'' ?fd = Inl ValueError"
    by (simp only: convert_column_def sel and_then_Inr and_then_Inl)
  then show ?thesis
    unfolding build_frame_def as_labels_strings as_records_strings
    by (simp only: frame and_then_Inr and_then_Inl prod.case option.case)
qed

section \<open>The normalizer\<close>

text \<open>
  Claim C4. When the payload is \<^verbatim>\<open>None\<close> (the fetch failed), or is an object without a
  \<^verbatim>\<open>count\<close> or with a \<^verbatim>\<open>count\<close> of zero, \<^verbatim>\<open>parse_data\<close> returns the empty frame,
  which has no row. It returns it (it does not raise), and what it shows is a warning, not
  an error.
\<close>

theorem parse_data_no_results:
  "data = JNull
     \<or> (\<exists>d. data = JObj d
            \<and> (map_of d ''count'' = None \<or> map_of d ''count'' = Some (JInt 0)
                 \<or> map_of d ''count'' = Some (JFloat 0))) \<Longrightarrow>
   parse_data td tn data = ([StWarning NoCloseApproaches], Inr empty_frame)
     \<and> rows (empty_frame :: 'n dataframe) = []
     \<and> (\<forall>m. StError m \<notin> set (fst (parse_data td tn (data :: ('n::zero) json))))"
  by (auto simp: parse_data_def dict_get_def empty_frame_def)

theorem parse_data_no_results_witness:
  "parse_data scenario_td scenario_tn JNull = ([StWarning NoCloseApproaches], Inr empty_frame)
   \<and> parse_data scenario_td scenario_tn (JObj [(''count'', JInt 0)])
       = ([StWarning NoCloseApproaches], Inr empty_frame)
   \<and> parse_data scenario_td scenario_tn (JObj [(''signature'', JStr ''1.5'')])
       = ([StWarning NoCloseApproaches], Inr empty_frame)
   \<and> rows (empty_frame :: rat dataframe) = []"
  using parse_data_no_results [of JNull scenario_td scenario_tn]
    parse_data_no_results [of "JObj [(''count'', JInt 0)]" scenario_td scenario_tn]
    parse_data_no_results [of "JObj [(''signature'', JStr ''1.5'')]" scenario_td scenario_tn]
  by simp

text \<open>
  Claim C5. For a payload whose count is \<open>N > 0\<close> and whose data are \<open>N\<close> well-formed
  records (each as long as the field list, which names \<^verbatim>\<open>cd\<close>, \<^verbatim>\<open>dist\<close>,
  \<^verbatim>\<open>v_rel\<close> and \<^verbatim>\<open>v_inf\<close> once each, and each with a date that matches the format),
  \<^verbatim>\<open>parse_data\<close> returns a frame of \<open>N\<close> rows: one row per record, in the order of the
  records, the row of a record being its values converted field by field.
\<close>

theorem parse_data_row_count:
  assumes "map_of d ''count'' = Some (JInt N)" and "0 < N"
    and "map_of d ''fields'' = Some (JList (map JStr fs))"
    and "map_of d ''data'' = Some (JList (map (\<lambda>r. JList (map JStr r)) recs))"
    and "int (length recs) = N"
    and "\<forall>r \<in> set recs. length r = length fs"
    and "count_list fs ''cd'' = 1" and "count_list fs ''dist'' = 1"
    and "count_list fs ''v_rel'' = 1" and "count_list fs ''v_inf'' = 1"
    and "\<forall>r \<in> set recs. \<forall>s. map_of (zip fs r) ''cd'' = Some s \<longrightarrow> td s \<noteq> Unreadable"
  shows "\<exists>fd. parse_data td tn (JObj d) = ([], Inr fd)
            \<and> int (length (rows fd)) = N
            \<and> columns fd = fs
            \<and> rows fd = map (row_of_record td tn fs) recs"
proof -
  from assms(2) have "N \<noteq> 0" by simp
  from parse_data_well_formed [OF assms(1) this assms(3,4,6-11), of tn]
  show ?thesis using assms(5) by simp
qed

theorem parse_data_row_count_witness:
  "parse_data scenario_td scenario_tn
     (scenario_payload [[''2025 AB'', ''2025-Jan-15 03:20'', ''0.0123'', ''7.5'', ''7.4'']])
   = ([], Inr \<lparr>columns = [''des'', ''cd'', ''dist'', ''v_rel'', ''v_inf''],
                 rows = [[Str ''2025 AB'', Time (Timestamp 2025 1 15 3 20),
                          Num (123 / 10000), Num (15 / 2), Num (37 / 5)]]\<rparr>)"
proof -
  let ?recs = "[[''2025 AB'', ''2025-Jan-15 03:20'', ''0.0123'', ''7.5'', ''7.4'']]"
  let ?d = "[(''count'', JInt (int (length ?recs))),
             (''fields'', JList (map JStr scenario_fields)),
             (''data'', JList (map (\<lambda>r. JList (map JStr r)) ?recs))] :: (string \<times> rat json) list"
  have "\<exists>fd. parse_data scenario_td scenario_tn (JObj ?d) = ([], Inr fd)
            \<and> int (length (rows fd)) = 1
            \<and> columns fd = scenario_fields
            \<and> rows fd = map (row_of_record scenario_td scenario_tn scenario_fields) ?recs"
    by (rule parse_data_row_count) (simp_all add: scenario_fields_def scenario_td_def)
  then show ?thesis
    by (auto simp: scenario_payload_def scenario_fields_def row_of_record_def convert_field_def
        scenario_td_def scenario_tn_def)
qed

text \<open>
  Claim C6. In a well-formed payload, let the \<^verbatim>\<open>dist\<close>, \<^verbatim>\<open>v_rel\<close> or \<^verbatim>\<open>v_inf\<close>
  field of a record be a string that is no number. Then \<^verbatim>\<open>parse_data\<close> does not raise:
  it returns a frame with one row per record, in which that field of that record is the
  missing number \<open>NaN\<close>, every other field of the record is its own value converted, and
  the fields that are not converted are the strings of the record.
\<close>

theorem parse_data_coerces_non_numeric:
  assumes "map_of d ''count'' = Some (JInt N)" and "N \<noteq> 0"
    and "map_of d ''fields'' = Some (JList (map JStr fs))"
    and "map_of d ''data'' = Some (JList (map (\<lambda>r. JList (map JStr r)) recs))"
    and "\<forall>r \<in> set recs. length r = length fs"
    and "count_list fs ''cd'' = 1" and "count_list fs ''dist'' = 1"
    and "count_list fs ''v_rel'' = 1" and "count_list fs ''v_inf'' = 1"
    and "\<forall>r \<in> set recs. \<forall>s. map_of (zip fs r) ''cd'' = Some s \<longrightarrow> td s \<noteq> Unreadable"
    and "i < length recs"
    and "name \<in> {''dist'', ''v_rel'', ''v_inf''}"
    and "map_of (zip fs (recs ! i)) name = Some s"
    and "tn s = Unreadable"
  shows "\<exists>fd. parse_data td tn (JObj d) = ([], Inr fd)
            \<and> length (rows fd) = length recs
            \<and> map_of (zip (columns fd) (rows fd ! i)) name = Some NaN
            \<and> (\<forall>other. other \<noteq> name \<longrightarrow>
                  map_of (zip (columns fd) (rows fd ! i)) other
                    = map_option (convert_field td tn other) (map_of (zip fs (recs ! i)) other))
            \<and> (\<forall>other v. other \<notin> {''cd'', ''dist'', ''v_rel'', ''v_inf''}
                    \<and> map_of (zip fs (recs ! i)) other = Some v \<longrightarrow>
                  map_of (zip (columns fd) (rows fd ! i)) other = Some (Str v))"
proof -
  let ?fd = "\<lparr>columns = fs, rows = map (row_of_record td tn fs) recs\<rparr>"
  have parsed: "parse_data td tn (JObj d) = ([], Inr ?fd)"
    by (rule parse_data_well_formed [OF assms(1-10)])
  have field: "map_of (zip fs (row_of_record td tn fs (recs ! i))) other
                 = map_option (convert_field td tn other) (map_of (zip fs (recs ! i)) other)"
    for other
    unfolding row_of_record_def by (rule map_of_zip_map2)
  have row: "rows ?fd ! i = row_of_record td tn fs (recs ! i)"
    using assms(11) by simp
  have missing: "convert_field td tn name s = NaN"
    using assms(12,14) by (auto simp: convert_field_def)
  have passed: "convert_field td tn other v = Str v"
    if "other \<notin> {''cd'', ''dist'', ''v_rel'', ''v_inf''}" for other v
    using that by (simp add: convert_field_def)
  have "length (rows ?fd) = length recs
          \<and> map_of (zip (columns ?fd) (rows ?fd ! i)) name = Some NaN
          \<and> (\<forall>other. other \<noteq> name \<longrightarrow>
                map_of (zip (columns ?fd) (rows ?fd ! i)) other
                  = map_option (convert_field td tn other) (map_of (zip fs (recs ! i)) other))
          \<and> (\<forall>other v. other \<notin> {''cd'', ''dist'', ''v_rel'', ''v_inf''}
                  \<and> map_of (zip fs (recs ! i)) other = Some v \<longrightarrow>
                map_of (zip (columns ?fd) (rows ?fd ! i)) other = Some (Str v))"
    unfolding row using passed by (simp add: field assms(13) missing)
  with parsed show ?thesis by blast
qed

theorem parse_data_coerces_non_numeric_witness:
  "parse_data scenario_td scenario_tn
     (scenario_payload [[''2025 AB'', ''2025-Jan-15 03:20'', ''N/A'', ''7.5'', ''7.4'']])
   = ([], Inr \<lparr>columns = [''des'', ''cd'', ''dist'', ''v_rel'', ''v_inf''],
                 rows = [[Str ''2025 AB'', Time (Timestamp 2025 1 15 3 20),
                          NaN, Num (15 / 2), Num (37 / 5)]]\<rparr>)
   \<and> scenario_tn ''N/A'' = Unreadable"
proof -
  let ?recs = "[[''2025 AB'', ''2025-Jan-15 03:20'', ''N/A'', ''7.5'', ''7.4'']]"
  let ?d = "[(''count'', JInt (int (length ?recs))),
             (''fields'', JList (map JStr scenario_fields)),
             (''data'', JList (map (\<lambda>r. JList (map JStr r)) ?recs))] :: (string \<times> rat json) list"
  have "\<exists>fd. parse_data scenario_td scenario_tn (JObj ?d) = ([], Inr fd)
            \<and> length (rows fd) = length ?recs
            \<and> map_of (zip (columns fd) (rows fd ! 0)) ''dist'' = Some NaN
            \<and> (\<forall>other. other \<noteq> ''dist'' \<longrightarrow>
                  map_of (zip (columns fd) (rows fd ! 0)) other
                    = map_option (convert_field scenario_td scenario_tn other)
                        (map_of (zip scenario_fields (?recs ! 0)) other))
            \<and> (\<forall>other v. other \<notin> {''cd'', ''dist'', ''v_rel'', ''v_inf''}
                    \<and> map_of (zip scenario_fields (?recs ! 0)) other = Some v \<longrightarrow>
                  map_of (zip (columns fd) (rows fd ! 0)) other = Some (Str v))"
    by (rule parse_data_coerces_non_numeric [where N = 1 and s = "''N/A''"])
      (simp_all add: scenario_fields_def scenario_td_def scenario_tn_def)
  then obtain fd where fd: "parse_data scenario_td scenario_tn (JObj ?d) = ([], Inr fd)"
    by blast
  have "parse_data scenario_td scenario_tn (JObj ?d)
          = ([], Inr \<lparr>columns = [''des'', ''cd'', ''dist'', ''v_rel'', ''v_inf''],
                        rows = [[Str ''2025 AB'', Time (Timestamp 2025 1 15 3 20),
                                 NaN, Num (15 / 2), Num (37 / 5)]]\<rparr>)"
    by (simp add: parse_data_def dict_get_def build_frame_def scenario_fields_def
        DataFrame_def and_then_def convert_column_def getitem_def setitem_def cell_of_def
        to_datetime_def to_numeric_def scenario_td_def scenario_tn_def)
  with fd show ?thesis
    by (simp add: scenario_payload_def scenario_tn_def)
qed

text \<open>
  Claim C10. There are payloads with a count above zero on which \<^verbatim>\<open>parse_data\<close> raises:
  whenever the \<^verbatim>\<open>cd\<close> field of some record is a string that does not match the format
  \<^verbatim>\<open>%Y-%b-%d %H:%M\<close>, the conversion of line 70 raises \<^verbatim>\<open>ValueError\<close> and no frame
  is returned. The date is not replaced by a missing marker as the three numeric fields
  are.
\<close>

theorem parse_data_bad_date_raises:
  assumes "map_of d ''count'' = Some (JInt N)" and "0 < N"
    and "map_of d ''fields'' = Some (JList (map JStr fs))"
    and "map_of d ''data'' = Some (JList (map (\<lambda>r. JList (map JStr r)) recs))"
    and "\<forall>r \<in> set recs. length r = length fs"
    and "count_list fs ''cd'' = 1"
    and "r \<in> set recs"
    and "map_of (zip fs r) ''cd'' = Some s"
    and "td s = Unreadable"
  shows "parse_data td tn (JObj d) = ([], Inl ValueError)"
proof -
  from assms(2) have "N \<noteq> 0" by simp
  from parse_data_nonzero [OF assms(1) this assms(3,4), of td tn]
    build_frame_bad_date [where td = td and s = s and tn = tn, OF assms(5-9)]
  show ?thesis by (simp only:)
qed

theorem parse_data_bad_date_raises_witness:
  "parse_data scenario_td scenario_tn
     (scenario_payload [[''2025 AB'', ''15/01/2025 03:20'', ''0.0123'', ''7.5'', ''7.4'']])
   = ([], Inl ValueError)
   \<and> scenario_td ''15/01/2025 03:20'' = Unreadable
   \<and> parse_data scenario_td scenario_tn
     (scenario_payload [[''2025 AB'', ''2025-Jan-15 03:20'', ''N/A'', ''N/A'', ''N/A'']])
   = ([], Inr \<lparr>columns = [''des'', ''cd'', ''dist'', ''v_rel'', ''v_inf''],
                 rows = [[Str ''2025 AB'', Time (Timestamp 2025 1 15 3 20), NaN, NaN, NaN]]\<rparr>)"
proof -
  let ?recs = "[[''2025 AB'', ''15/01/2025 03:20'', ''0.0123'', ''7.5'', ''7.4'']]"
  let ?d = "[(''count'', JInt (int (length ?recs))),
             (''fields'', JList (map JStr scenario_fields)),
             (''data'', JList (map (\<lambda>r. JList (map JStr r)) ?recs))] :: (string \<times> rat json) list"
  have "parse_data scenario_td scenario_tn (JObj ?d) = ([], Inl ValueError)"
    by (rule parse_data_bad_date_raises
          [where N = 1 and fs = scenario_fields and recs = ?recs
             and r = "[''2025 AB'', ''15/01/2025 03:20'', ''0.0123'', ''7.5'', ''7.4'']"
             and s = "''15/01/2025 03:20''"])
      (simp_all add: scenario_fields_def scenario_td_def)
  moreover have "parse_data scenario_td scenario_tn
     (scenario_payload [[''2025 AB'', ''2025-Jan-15 03:20'', ''N/A'', ''N/A'', ''N/A'']])
   = ([], Inr \<lparr>columns = [''des'', ''cd'', ''dist'', ''v_rel'', ''v_inf''],
                 rows = [[Str ''2025 AB'', Time (Timestamp 2025 1 15 3 20), NaN, NaN, NaN]]\<rparr>)"
    by (simp add: scenario_payload_def parse_data_def dict_get_def build_frame_def
        scenario_fields_def DataFrame_def and_then_def convert_column_def getitem_def
        setitem_def cell_of_def to_datetime_def to_numeric_def scenario_td_def scenario_tn_def)
  ultimately show ?thesis
    by (simp add: scenario_payload_def scenario_td_def)
qed

section \<open>The combiner\<close>

lemma drop_seen_cong: "set s = set t \<Longrightarrow> drop_seen s rs = drop_seen t rs"
proof (induction rs arbitrary: s t)
  case (Cons r rs)
  from Cons.prems have "drop_seen (r # s) rs = drop_seen (r # t) rs"
    by (intro Cons.IH) simp
  moreover from Cons.prems have "drop_seen s rs = drop_seen t rs"
    by (rule Cons.IH)
  ultimately show ?case using Cons.prems by simp
qed simp

lemma drop_seen_all_seen: "set rs \<subseteq> set seen \<Longrightarrow> drop_seen seen rs = []"
  by (induction rs) auto

lemma drop_seen_append:
  "distinct xs \<Longrightarrow> set xs \<inter> set seen = {} \<Longrightarrow>
     drop_seen seen (xs @ ys) = xs @ drop_seen (xs @ seen) ys"
proof (induction xs arbitrary: seen)
  case (Cons x xs)
  have "drop_seen (x # seen) (xs @ ys) = xs @ drop_seen (xs @ x # seen) ys"
    using Cons.prems by (intro Cons.IH) auto
  moreover have "drop_seen (xs @ x # seen) ys = drop_seen (x # xs @ seen) ys"
    by (rule drop_seen_cong) auto
  ultimately show ?case using Cons.prems by simp
qed simp

lemma drop_seen_filter:
  "drop_seen (s @ t) rs = filter (\<lambda>r. r \<notin> set s) (drop_seen t rs)"
proof (induction rs arbitrary: s t)
  case (Cons r rs)
  show ?case
  proof (cases "r \<in> set t")
    case True
    then show ?thesis using Cons.IH [of s t] by simp
  next
    case not_t: False
    show ?thesis
    proof (cases "r \<in> set s")
      case True
      have "drop_seen (r # t) rs = filter (\<lambda>x. x \<notin> set [r]) (drop_seen t rs)"
        using Cons.IH [of "[r]" t] by simp
      then have "filter (\<lambda>x. x \<notin> set s) (drop_seen (r # t) rs)
                   = filter (\<lambda>x. x \<notin> set s) (drop_seen t rs)"
        using True by (auto simp: filter_filter intro!: filter_cong)
      with True not_t show ?thesis using Cons.IH [of s t] by simp
    next
      case False
      have "drop_seen (r # s @ t) rs = drop_seen (s @ r # t) rs"
        by (rule drop_seen_cong) auto
      with False not_t show ?thesis using Cons.IH [of s "r # t"] by simp
    qed
  qed
qed simp

lemma combine_same_columns:
  "columns b = columns a \<Longrightarrow>
     combine a b = Inr \<lparr>columns = columns a, rows = drop_seen [] (rows a @ rows b)\<rparr>"
  by (simp add: combine_def pd_concat_def and_then_def drop_duplicates_def)

text \<open>
  Claim C7. For a frame whose rows are pairwise different, combining the frame with itself
  gives the frame back: every row of the second operand is dropped as a duplicate of a row
  of the first.
\<close>

theorem combine_self:
  "distinct (rows fd) \<Longrightarrow> combine fd fd = Inr fd"
proof -
  assume d: "distinct (rows fd)"
  have "drop_seen [] (rows fd @ rows fd) = rows fd @ drop_seen (rows fd @ []) (rows fd)"
    using d by (intro drop_seen_append) simp_all
  also have "drop_seen (rows fd @ []) (rows fd) = []"
    by (rule drop_seen_all_seen) simp
  finally show ?thesis
    by (simp add: combine_same_columns)
qed

theorem combine_self_witness:
  "distinct [[Str ''2025 AB'', Num (1 / 2 :: rat)], [Str ''2025 CD'', NaN]]
   \<and> combine \<lparr>columns = [''des'', ''dist''],
               rows = [[Str ''2025 AB'', Num (1 / 2 :: rat)], [Str ''2025 CD'', NaN]]\<rparr>
             \<lparr>columns = [''des'', ''dist''],
               rows = [[Str ''2025 AB'', Num (1 / 2)], [Str ''2025 CD'', NaN]]\<rparr>
       = Inr \<lparr>columns = [''des'', ''dist''],
               rows = [[Str ''2025 AB'', Num (1 / 2)], [Str ''2025 CD'', NaN]]\<rparr>"
  using combine_self [of "\<lparr>columns = [''des'', ''dist''],
               rows = [[Str ''2025 AB'', Num (1 / 2 :: rat)], [Str ''2025 CD'', NaN]]\<rparr>"]
  by simp

lemma drop_seen_distinct: "distinct rs \<Longrightarrow> drop_seen [] rs = rs"
  using drop_seen_append [of rs "[]" "[]"] by simp

lemma pd_concat_empty_right:
  "columns a \<noteq> columns b \<Longrightarrow> b = empty_frame \<Longrightarrow> distinct (columns a) \<Longrightarrow>
     pd_concat a b = Inr a"
  by (simp add: pd_concat_def)

lemma pd_concat_empty_left:
  "columns a \<noteq> columns b \<Longrightarrow> a = empty_frame \<Longrightarrow> distinct (columns b) \<Longrightarrow>
     pd_concat a b = Inr b"
  unfolding pd_concat_def by (simp only: if_False if_True simp_thms) simp

text \<open>
  Claim C8, under the conditions it needs. Let the rows of the first frame be pairwise
  different. Let the two frames have the same columns, or let one of them be the empty
  frame \<^verbatim>\<open>pd.DataFrame()\<close> and the column labels of the other be pairwise distinct.
  Then the combined frame is the rows of the first frame, as they are and in their order,
  followed by the rows of the second frame that occur neither in the first frame nor
  earlier in the second one, in their order.
\<close>

theorem combine_keeps_first_operand:
  assumes "distinct (rows a)"
    and "columns b = columns a
         \<or> (b = empty_frame \<and> distinct (columns a))
         \<or> (a = empty_frame \<and> distinct (columns b))"
  shows "\<exists>c. combine a b = Inr c
            \<and> take (length (rows a)) (rows c) = rows a
            \<and> drop (length (rows a)) (rows c)
                = filter (\<lambda>r. r \<notin> set (rows a)) (drop_seen [] (rows b))"
proof (cases "columns b = columns a")
  case True
  have "drop_seen [] (rows a @ rows b) = rows a @ drop_seen (rows a @ []) (rows b)"
    using assms(1) by (intro drop_seen_append) simp_all
  also have "drop_seen (rows a @ []) (rows b)
               = filter (\<lambda>r. r \<notin> set (rows a)) (drop_seen [] (rows b))"
    by (rule drop_seen_filter)
  finally show ?thesis
    by (simp add: combine_same_columns [OF True])
next
  case False
  then have ne: "columns a \<noteq> columns b" by simp
  from False assms(2) consider "b = empty_frame" "distinct (columns a)"
    | "a = empty_frame" "distinct (columns b)"
    by blast
  then show ?thesis
  proof cases
    case 1
    have "combine a b = Inr (drop_duplicates a)"
      unfolding combine_def pd_concat_empty_right [OF ne 1] by (simp add: and_then_def)
    moreover have "rows b = []"
      using 1 by (simp add: empty_frame_def)
    ultimately show ?thesis
      using assms(1) by (simp add: drop_duplicates_def drop_seen_distinct)
  next
    case 2
    have "combine a b = Inr (drop_duplicates b)"
      unfolding combine_def pd_concat_empty_left [OF ne 2] by (simp add: and_then_def)
    moreover have "rows a = []"
      using 2 by (simp add: empty_frame_def)
    ultimately show ?thesis
      by (simp add: drop_duplicates_def)
  qed
qed

theorem combine_keeps_first_operand_witness:
  "distinct [[Str ''A''], [Str ''B'' :: rat cell]]
   \<and> combine \<lparr>columns = [''des''], rows = [[Str ''A''], [Str ''B'' :: rat cell]]\<rparr>
             \<lparr>columns = [''des''], rows = [[Str ''B''], [Str ''C''], [Str ''C'']]\<rparr>
       = Inr \<lparr>columns = [''des''], rows = [[Str ''A''], [Str ''B''], [Str ''C'']]\<rparr>
   \<and> distinct [''des'', ''cd'']
   \<and> combine \<lparr>columns = [''des'', ''cd''], rows = [[Str ''A'', NaT], [Str ''B'' :: rat cell, NaT]]\<rparr>
             empty_frame
       = Inr \<lparr>columns = [''des'', ''cd''], rows = [[Str ''A'', NaT], [Str ''B'', NaT]]\<rparr>
   \<and> combine empty_frame
             \<lparr>columns = [''des'', ''cd''], rows = [[Str ''C'', NaT], [Str ''C'' :: rat cell, NaT]]\<rparr>
       = Inr \<lparr>columns = [''des'', ''cd''], rows = [[Str ''C'', NaT]]\<rparr>"
  using combine_keeps_first_operand
    [of "\<lparr>columns = [''des''], rows = [[Str ''A''], [Str ''B'' :: rat cell]]\<rparr>"
        "\<lparr>columns = [''des''], rows = [[Str ''B''], [Str ''C''], [Str ''C'']]\<rparr>"]
    combine_keeps_first_operand
    [of "\<lparr>columns = [''des'', ''cd''], rows = [[Str ''A'', NaT], [Str ''B'' :: rat cell, NaT]]\<rparr>"
        empty_frame]
    combine_keeps_first_operand
    [of "empty_frame :: rat dataframe"
        "\<lparr>columns = [''des'', ''cd''], rows = [[Str ''C'', NaT], [Str ''C'', NaT]]\<rparr>"]
  by (simp add: combine_def pd_concat_def and_then_def drop_duplicates_def empty_frame_def)

text \<open>
  The claim as the specification states it, for any two frames, fails when the first
  frame repeats a row: the repeated row is dropped from the first operand too.
\<close>

theorem combine_first_operand_counterexample:
  "combine \<lparr>columns = [''des''], rows = [[Str ''A''], [Str ''A'' :: rat cell]]\<rparr>
           \<lparr>columns = [''des''], rows = []\<rparr>
     = Inr \<lparr>columns = [''des''], rows = [[Str ''A'']]\<rparr>
   \<and> take (length [[Str ''A''], [Str ''A'' :: rat cell]]) [[Str ''A'' :: rat cell]]
       \<noteq> [[Str ''A''], [Str ''A'']]"
  by (simp add: combine_def pd_concat_def and_then_def drop_duplicates_def)

end
